theory Spec2Isabelle
  imports Complex_Main "HOL-Library.Word" "HOL-Library.Sublist"
begin

unbundle bit_operations_syntax

section \<open>Values of the Python program\<close>

text \<open>
  The endpoint \<^verbatim>\<open>document_merge\<close> of \<^verbatim>\<open>src/app.py\<close> works on the Python object that
  \<^verbatim>\<open>request.get_json()\<close> returns. A Python \<^verbatim>\<open>str\<close> is a \<open>string\<close>; a character
  of code 128 or more stands for a non-ASCII code point. A \<^verbatim>\<open>dict\<close> is an association
  list in its iteration order, \<^verbatim>\<open>bytes\<close> are a list of 8-bit words.
\<close>

type_synonym byte = "8 word"

datatype pyfloat = Finite rat | PlusInfinity | MinusInfinity | NaN

datatype json =
    JNull
  | JBool bool
  | JInt int
  | JFloat pyfloat
  | JStr string
  | JArr "json list"
  | JObj "(string \<times> json) list"

text \<open>
  An exception is an instance of a subclass of \<^verbatim>\<open>Exception\<close>: the two built-in classes
  the handler can meet by itself, \<^verbatim>\<open>binascii.Error\<close>, and \<open>Raised\<close> for every other class
  (what Flask and the mail-merge library raise). Each carries the text of \<^verbatim>\<open>str(e)\<close>.
\<close>

datatype exn =
    TypeError string
  | ValueError string
  | Binascii_Error string
  | Raised string

fun str_exn :: "exn \<Rightarrow> string" where
  "str_exn (TypeError m) = m"
| "str_exn (ValueError m) = m"
| "str_exn (Binascii_Error m) = m"
| "str_exn (Raised m) = m"

fun type_name :: "json \<Rightarrow> string" where
  "type_name JNull = ''NoneType''"
| "type_name (JBool _) = ''bool''"
| "type_name (JInt _) = ''int''"
| "type_name (JFloat _) = ''float''"
| "type_name (JStr _) = ''str''"
| "type_name (JArr _) = ''list''"
| "type_name (JObj _) = ''dict''"

text \<open>Truth value of an object, as \<^verbatim>\<open>not request_data\<close> tests it.\<close>

fun truthy :: "json \<Rightarrow> bool" where
  "truthy JNull = False"
| "truthy (JBool b) = b"
| "truthy (JInt i) = (i \<noteq> 0)"
| "truthy (JFloat f) = (f \<noteq> Finite 0)"
| "truthy (JStr s) = (s \<noteq> [])"
| "truthy (JArr xs) = (xs \<noteq> [])"
| "truthy (JObj kvs) = (kvs \<noteq> [])"

text \<open>
  \<^verbatim>\<open>key in obj\<close> for a \<^verbatim>\<open>str\<close> key: key membership on a dict, substring test on a
  str, element test on a list, and a \<^verbatim>\<open>TypeError\<close> on every other object.
\<close>

fun py_in :: "string \<Rightarrow> json \<Rightarrow> exn + bool" where
  "py_in k (JObj kvs) = Inr (k \<in> fst ` set kvs)"
| "py_in k (JStr s) = Inr (sublist k s)"
| "py_in k (JArr xs) = Inr (JStr k \<in> set xs)"
| "py_in k v = Inl (TypeError (''argument of type '' @ [CHR 0x27] @ type_name v @ [CHR 0x27] @ '' is not iterable''))"

text \<open>\<^verbatim>\<open>obj[key]\<close> for a \<^verbatim>\<open>str\<close> key, on an object on which \<^verbatim>\<open>key in obj\<close> held.\<close>

fun py_getitem :: "json \<Rightarrow> string \<Rightarrow> exn + json" where
  "py_getitem (JObj kvs) k =
     (case map_of kvs k of
        Some v \<Rightarrow> Inr v
      | None \<Rightarrow> Inl (Raised ([CHR 0x27] @ k @ [CHR 0x27])))"
| "py_getitem (JStr s) k =
     Inl (TypeError (''string indices must be integers, not '' @ [CHR 0x27] @ ''str'' @ [CHR 0x27]))"
| "py_getitem (JArr xs) k = Inl (TypeError ''list indices must be integers or slices, not str'')"
| "py_getitem v k = Inl (TypeError ([CHR 0x27] @ type_name v @ [CHR 0x27] @ '' object is not subscriptable''))"

fun isinstance_dict :: "json \<Rightarrow> bool" where
  "isinstance_dict (JObj _) = True"
| "isinstance_dict _ = False"

fun isinstance_str :: "json \<Rightarrow> bool" where
  "isinstance_str (JStr _) = True"
| "isinstance_str _ = False"

fun items :: "json \<Rightarrow> (string \<times> json) list" where
  "items (JObj kvs) = kvs"
| "items _ = []"

section \<open>The standard library's base64 codec\<close>

text \<open>
  \<^verbatim>\<open>base64.b64encode\<close> and \<^verbatim>\<open>base64.b64decode\<close> belong to CPython, not to the
  repository. They are modelled after \<^verbatim>\<open>Modules/binascii.c\<close>: the encoder emits four
  characters of the standard alphabet for three bytes and pads the last group with
  \<^verbatim>\<open>=\<close>; the decoder is \<^verbatim>\<open>a2b_base64\<close> as \<^verbatim>\<open>b64decode\<close> calls it by default
  (\<^verbatim>\<open>validate=False\<close>, so not in strict mode).
\<close>

definition BASE64_PAD :: char where
  "BASE64_PAD = CHR ''=''"

definition table_b2a_base64 :: string where
  "table_b2a_base64 =
     ''ABCDEFGHIJKLMNOPQRSTUVWXYZabcdefghijklmnopqrstuvwxyz0123456789+/''"

definition b2a :: "byte \<Rightarrow> char" where
  "b2a v = table_b2a_base64 ! unat v"

text \<open>The decoding table: the 6-bit value of a character of the alphabet, \<open>None\<close> for any other.\<close>

definition table_a2b_base64 :: "char \<Rightarrow> byte option" where
  "table_a2b_base64 c = map_of (zip table_b2a_base64 (map of_nat [0..<64])) c"

fun b2a_base64 :: "byte list \<Rightarrow> string" where
  "b2a_base64 (a # b # c # rest) =
     [b2a (drop_bit 2 a),
      b2a (push_bit 4 (a AND 3) OR drop_bit 4 b),
      b2a (push_bit 2 (b AND 15) OR drop_bit 6 c),
      b2a (c AND 63)] @ b2a_base64 rest"
| "b2a_base64 [a, b] =
     [b2a (drop_bit 2 a),
      b2a (push_bit 4 (a AND 3) OR drop_bit 4 b),
      b2a (push_bit 2 (b AND 15)),
      BASE64_PAD]"
| "b2a_base64 [a] =
     [b2a (drop_bit 2 a),
      b2a (push_bit 4 (a AND 3)),
      BASE64_PAD,
      BASE64_PAD]"
| "b2a_base64 [] = []"

definition b64encode :: "byte list \<Rightarrow> string" where
  "b64encode s = b2a_base64 s"

text \<open>Decimal text of a number, as \<^verbatim>\<open>%zd\<close> prints the count in the decoder's message.\<close>

fun str_nat :: "nat \<Rightarrow> string" where
  "str_nat n =
     (if n < 10 then [''0123456789'' ! n]
      else str_nat (n div 10) @ [''0123456789'' ! (n mod 10)])"

declare str_nat.simps [simp del]

text \<open>
  The loop of \<^verbatim>\<open>a2b_base64\<close> outside strict mode, over the characters left to read.
  \<open>quad_pos\<close> is the position in the current group of four, \<open>leftchar\<close> the bits not yet
  written, \<open>pads\<close> the padding characters seen since the last data character, \<open>bin_data\<close>
  the bytes written. A pad that completes a group ends the decoding (\<^verbatim>\<open>goto done\<close>);
  any other pad and any character outside the alphabet is skipped.
\<close>

fun a2b_loop :: "nat \<Rightarrow> byte \<Rightarrow> nat \<Rightarrow> byte list \<Rightarrow> string \<Rightarrow> exn + byte list" where
  "a2b_loop quad_pos leftchar pads bin_data [] =
     (if quad_pos \<noteq> 0 then
        (if quad_pos = 1 then
           Inl (Binascii_Error (''Invalid base64-encoded string: number of data characters (''
                @ str_nat (length bin_data div 3 * 4 + 1)
                @ '') cannot be 1 more than a multiple of 4''))
         else Inl (Binascii_Error ''Incorrect padding''))
      else Inr bin_data)"
| "a2b_loop quad_pos leftchar pads bin_data (this_ch # rest) =
     (if this_ch = BASE64_PAD then
        (if quad_pos \<ge> 2 \<and> quad_pos + (pads + 1) \<ge> 4 then Inr bin_data
         else a2b_loop quad_pos leftchar (if quad_pos \<ge> 2 then pads + 1 else pads) bin_data rest)
      else
        (case table_a2b_base64 this_ch of
           None \<Rightarrow> a2b_loop quad_pos leftchar pads bin_data rest
         | Some v \<Rightarrow>
             (if quad_pos = 0 then a2b_loop 1 v 0 bin_data rest
              else if quad_pos = 1 then
                a2b_loop 2 (v AND 15) 0 (bin_data @ [push_bit 2 leftchar OR drop_bit 4 v]) rest
              else if quad_pos = 2 then
                a2b_loop 3 (v AND 3) 0 (bin_data @ [push_bit 4 leftchar OR drop_bit 2 v]) rest
              else
                a2b_loop 0 0 0 (bin_data @ [push_bit 6 leftchar OR v]) rest)))"

definition a2b_base64 :: "string \<Rightarrow> exn + byte list" where
  "a2b_base64 s = a2b_loop 0 0 0 [] s"

definition is_ascii :: "char \<Rightarrow> bool" where
  "is_ascii c = (of_char c < (128 :: nat))"

text \<open>
  \<^verbatim>\<open>b64decode(s)\<close>: a str must be ASCII (\<^verbatim>\<open>ValueError\<close> otherwise), and an object that
  is neither a str nor bytes-like is a \<^verbatim>\<open>TypeError\<close>. No JSON value is bytes-like.
\<close>

fun b64decode :: "json \<Rightarrow> exn + byte list" where
  "b64decode (JStr s) =
     (if list_all is_ascii s then a2b_base64 s
      else Inl (ValueError ''string argument should contain only ASCII characters''))"
| "b64decode v =
     Inl (TypeError (''argument should be a bytes-like object or ASCII string, not ''
                     @ [CHR 0x27] @ type_name v @ [CHR 0x27]))"

section \<open>The request and Flask's JSON parsing\<close>

text \<open>
  \<^verbatim>\<open>request.get_json()\<close> belongs to Flask (Werkzeug), not to the repository. It is
  modelled as Flask 2.1 and later have it, called without arguments and with
  \<^verbatim>\<open>app.debug\<close> false: a request whose mimetype is not a JSON one raises
  \<^verbatim>\<open>UnsupportedMediaType\<close>; otherwise the body is given to \<^verbatim>\<open>json.loads\<close>, and a
  \<^verbatim>\<open>ValueError\<close> of the parser is raised again as \<^verbatim>\<open>BadRequest\<close>. Both are
  subclasses of \<^verbatim>\<open>Exception\<close>. The parser is a parameter \<open>loads\<close>; \<open>mimetype\<close> is
  the content type in lower case without its parameters, empty when the header is missing.
\<close>

record request =
  mimetype :: string
  get_data :: string

definition is_json :: "request \<Rightarrow> bool" where
  "is_json req =
     (mimetype req = ''application/json''
      \<or> (prefix ''application/'' (mimetype req) \<and> suffix ''+json'' (mimetype req)))"

fun on_json_loading_failed :: "exn option \<Rightarrow> exn" where
  "on_json_loading_failed None =
     Raised (''415 Unsupported Media Type: Did not attempt to load JSON data because the request Content-Type was not ''
             @ [CHR 0x27] @ ''application/json'' @ [CHR 0x27] @ ''.'')"
| "on_json_loading_failed (Some e) =
     Raised ''400 Bad Request: The browser (or proxy) sent a request that this server could not understand.''"

fun is_ValueError :: "exn \<Rightarrow> bool" where
  "is_ValueError (ValueError m) = True"
| "is_ValueError (Binascii_Error m) = True"
| "is_ValueError e = False"

definition request_get_json :: "(string \<Rightarrow> exn + json) \<Rightarrow> request \<Rightarrow> exn + json" where
  "request_get_json loads req =
     (if \<not> is_json req then Inl (on_json_loading_failed None)
      else
       (case loads (get_data req) of
          Inl e \<Rightarrow> (if is_ValueError e then Inl (on_json_loading_failed (Some e)) else Inl e)
        | Inr rv \<Rightarrow> Inr rv))"

text \<open>
  A stand-in for \<^verbatim>\<open>json.loads\<close> on the two bodies of the sample requests: the text
  \<^verbatim>\<open>{}\<close> is the empty object, the text of one opening brace is not JSON.
\<close>

definition sample_loads :: "string \<Rightarrow> exn + json" where
  "sample_loads s =
     (if s = ''{}'' then Inr (JObj [])
      else Inl (ValueError ''Expecting property name enclosed in double quotes: line 1 column 2 (char 1)''))"

section \<open>The mail-merge library\<close>

text \<open>
  \<^verbatim>\<open>mailmerge.MailMerge\<close> is an external library: the handler is given its four
  operations. \<open>'doc\<close> is the state of the document object; \<open>MailMerge\<close> opens the
  template, \<open>get_merge_fields\<close> returns the set of field names as the list of its
  elements, \<open>merge\<close> receives the keyword arguments as a dict and changes the document,
  \<open>write_buffer\<close> is \<^verbatim>\<open>write(output_buffer)\<close> and returns the bytes written. Each may raise.
\<close>

record 'doc mailmerge =
  MailMerge :: "byte list \<Rightarrow> exn + 'doc"
  get_merge_fields :: "'doc \<Rightarrow> exn + string list"
  merge :: "'doc \<Rightarrow> (string \<times> json) list \<Rightarrow> exn + 'doc"
  write_buffer :: "'doc \<Rightarrow> exn + byte list"

text \<open>The calls made on the library, in the order they are made.\<close>

datatype call =
    Call_MailMerge "byte list"
  | Call_get_merge_fields
  | Call_merge "(string \<times> json) list"
  | Call_write

section \<open>The handler\<close>

text \<open>A response is the JSON body given to \<^verbatim>\<open>jsonify\<close> and the HTTP status.\<close>

type_synonym response = "json \<times> nat"

definition error_body :: "string \<Rightarrow> json" where
  "error_body msg = JObj [(''success'', JBool False), (''error'', JStr msg)]"

definition success_body :: "string \<Rightarrow> string list \<Rightarrow> json" where
  "success_body output_base64 available_fields =
     JObj [(''success'', JBool True),
           (''document'', JStr output_base64),
           (''fields'', JArr (map JStr available_fields))]"

definition status :: "response \<Rightarrow> nat" where
  "status r = snd r"

definition field :: "string \<Rightarrow> response \<Rightarrow> json option" where
  "field k r = map_of (items (fst r)) k"

text \<open>The loop over \<^verbatim>\<open>data.items()\<close>: the first key whose value is not a str.\<close>

fun first_non_str :: "(string \<times> json) list \<Rightarrow> string option" where
  "first_non_str [] = None"
| "first_non_str ((key, val) # rest) =
     (if \<not> isinstance_str val then Some key else first_non_str rest)"

text \<open>
  Line 87, \<^verbatim>\<open>document.merge(**data)\<close>: the keys of \<^verbatim>\<open>data\<close> become keyword
  arguments of the bound method \<^verbatim>\<open>merge(self, parts=None, **replacements)\<close>. A key
  \<^verbatim>\<open>self\<close> collides with the method's own first parameter, and the call raises
  \<^verbatim>\<open>TypeError\<close> before the method runs; with any other keys the method receives the
  dict.
\<close>

definition call_merge :: "'doc mailmerge \<Rightarrow> 'doc \<Rightarrow> (string \<times> json) list \<Rightarrow> exn + 'doc" where
  "call_merge lib document data =
     (if ''self'' \<in> fst ` set data then
        Inl (TypeError (''MailMerge.merge() got multiple values for argument ''
                        @ [CHR 0x27] @ ''self'' @ [CHR 0x27]))
      else merge lib document data)"

text \<open>Lines 79 to 103: the work on the decoded template, with the calls it makes.\<close>

definition merge_document ::
  "'doc mailmerge \<Rightarrow> byte list \<Rightarrow> (string \<times> json) list \<Rightarrow> (exn + response) \<times> call list" where
  "merge_document lib template_bytes data =
     (case MailMerge lib template_bytes of
        Inl e \<Rightarrow> (Inl e, [Call_MailMerge template_bytes])
      | Inr document \<Rightarrow>
          (case get_merge_fields lib document of
             Inl e \<Rightarrow> (Inl e, [Call_MailMerge template_bytes, Call_get_merge_fields])
           | Inr available_fields \<Rightarrow>
               (case call_merge lib document data of
                  Inl e \<Rightarrow>
                    (Inl e, [Call_MailMerge template_bytes, Call_get_merge_fields, Call_merge data])
                | Inr merged \<Rightarrow>
                    (case write_buffer lib merged of
                       Inl e \<Rightarrow>
                         (Inl e, [Call_MailMerge template_bytes, Call_get_merge_fields,
                                  Call_merge data, Call_write])
                     | Inr output_bytes \<Rightarrow>
                         (Inr (success_body (b64encode output_bytes) available_fields, 200),
                          [Call_MailMerge template_bytes, Call_get_merge_fields,
                           Call_merge data, Call_write])))))"

definition missing_parameters :: response where
  "missing_parameters = (error_body ''Missing required parameters: template and data'', 400)"

definition data_not_object :: response where
  "data_not_object = (error_body ''Data must be an object'', 400)"

definition value_not_string :: "string \<Rightarrow> response" where
  "value_not_string key =
     (error_body (''Data value for key '' @ [CHR 0x27] @ key @ [CHR 0x27] @ '' must be a string''), 400)"

definition invalid_base64 :: response where
  "invalid_base64 = (error_body ''Invalid base64 encoded template'', 400)"

text \<open>
  The body of the outer \<^verbatim>\<open>try\<close>, lines 43 to 103. Its argument is the outcome of
  \<^verbatim>\<open>request.get_json()\<close>. \<open>Inl e\<close> is an exception that reaches the outer
  \<^verbatim>\<open>except\<close>; the inner \<^verbatim>\<open>try\<close> around the decoding turns every exception into a
  response.
\<close>

definition try_block ::
  "'doc mailmerge \<Rightarrow> exn + json \<Rightarrow> (exn + response) \<times> call list" where
  "try_block lib get_json =
     (case get_json of
        Inl e \<Rightarrow> (Inl e, [])
      | Inr request_data \<Rightarrow>
         (if \<not> truthy request_data then (Inr missing_parameters, [])
          else
           (case py_in ''template'' request_data of
              Inl e \<Rightarrow> (Inl e, [])
            | Inr has_template \<Rightarrow>
               (if \<not> has_template then (Inr missing_parameters, [])
                else
                 (case py_in ''data'' request_data of
                    Inl e \<Rightarrow> (Inl e, [])
                  | Inr has_data \<Rightarrow>
                     (if \<not> has_data then (Inr missing_parameters, [])
                      else
                       (case py_getitem request_data ''template'' of
                          Inl e \<Rightarrow> (Inl e, [])
                        | Inr template_base64 \<Rightarrow>
                           (case py_getitem request_data ''data'' of
                              Inl e \<Rightarrow> (Inl e, [])
                            | Inr data \<Rightarrow>
                               (if \<not> isinstance_dict data then (Inr data_not_object, [])
                                else
                                 (case first_non_str (items data) of
                                    Some key \<Rightarrow> (Inr (value_not_string key), [])
                                  | None \<Rightarrow>
                                     (case b64decode template_base64 of
                                        Inl e \<Rightarrow> (Inr invalid_base64, [])
                                      | Inr template_bytes \<Rightarrow>
                                          merge_document lib template_bytes (items data))))))))))))"

text \<open>
  The handler: what reaches the outer \<^verbatim>\<open>except Exception\<close> becomes a 500 response
  with \<^verbatim>\<open>str(e)\<close> as the message.
\<close>

definition document_merge :: "'doc mailmerge \<Rightarrow> exn + json \<Rightarrow> response \<times> call list" where
  "document_merge lib get_json =
     (case try_block lib get_json of
        (Inl e, calls) \<Rightarrow> ((error_body (str_exn e), 500), calls)
      | (Inr r, calls) \<Rightarrow> (r, calls))"

text \<open>
  A library to run the handler on: it refuses an empty file, as a reader of zip
  archives does, finds two fields, and writes the bytes it was given.
\<close>

definition sample_lib :: "(byte list) mailmerge" where
  "sample_lib =
     \<lparr> MailMerge = (\<lambda>bs. if bs = [] then Inl (Raised ''File is not a zip file'') else Inr bs),
       get_merge_fields = (\<lambda>doc. Inr [''client_name'', ''date'']),
       merge = (\<lambda>doc data. Inr doc),
       write_buffer = (\<lambda>doc. Inr doc) \<rparr>"

text \<open>
  What the merge capability enumerates from the decoded template: the field names of the
  document that \<open>MailMerge\<close> opens on the bytes of \<^verbatim>\<open>template\<close>. The \<^verbatim>\<open>data\<close> of
  the request is no argument of it.
\<close>

definition listed_fields :: "'doc mailmerge \<Rightarrow> json \<Rightarrow> string list option" where
  "listed_fields lib template_base64 =
     (case b64decode template_base64 of
        Inl e \<Rightarrow> None
      | Inr template_bytes \<Rightarrow>
         (case MailMerge lib template_bytes of
            Inl e \<Rightarrow> None
          | Inr document \<Rightarrow>
             (case get_merge_fields lib document of
                Inl e \<Rightarrow> None
              | Inr available_fields \<Rightarrow> Some available_fields)))"

section \<open>Facts about the base64 codec\<close>

text \<open>Bytes are compared bit by bit; the three masks of the codec are bit masks.\<close>

lemma mask3: "(3::byte) = mask 2" by (simp add: mask_eq_exp_minus_1)
lemma mask15: "(15::byte) = mask 4" by (simp add: mask_eq_exp_minus_1)
lemma mask63: "(63::byte) = mask 6" by (simp add: mask_eq_exp_minus_1)

lemma byte_eqI:
  fixes v w :: byte
  assumes "list_all (\<lambda>n. bit v n = bit w n) [0, 1, 2, 3, 4, 5, 6, 7]"
  shows "v = w"
proof (rule bit_word_eqI)
  fix n :: nat assume "n < LENGTH(8)"
  then have "n \<in> set [0, 1, 2, 3, 4, 5, 6, 7]" by simp arith
  with assms show "bit v n = bit w n"
    unfolding list_all_iff by blast
qed

lemma sextet_less:
  fixes v :: byte
  assumes "take_bit 6 v = v"
  shows "unat v < 64"
proof -
  have "unat v = take_bit 6 (unat v)"
    using assms by (metis unsigned_take_bit_eq)
  also have "\<dots> < 2 ^ 6" by (rule take_bit_nat_less_exp)
  finally show ?thesis by simp
qed

lemma byte_high_bit: "8 \<le> n \<Longrightarrow> \<not> bit (a::byte) n"
  by (auto dest: bit_imp_le_length)

lemma sextet0: "unat (drop_bit 2 (a::byte)) < 64"
  by (rule sextet_less, rule byte_eqI) (simp add: bit_simps byte_high_bit)

lemma sextet1: "unat (push_bit 4 (a AND 3) OR drop_bit 4 (b::byte)) < 64"
  unfolding mask3 by (rule sextet_less, rule byte_eqI) (simp add: bit_simps byte_high_bit)

lemma sextet2: "unat (push_bit 2 (b AND 15) OR drop_bit 6 (c::byte)) < 64"
  unfolding mask15 by (rule sextet_less, rule byte_eqI) (simp add: bit_simps byte_high_bit)

lemma sextet3: "unat ((c::byte) AND 63) < 64"
  unfolding mask63 by (rule sextet_less, rule byte_eqI) (simp add: bit_simps byte_high_bit)

lemma octet0: "push_bit 2 (drop_bit 2 a) OR drop_bit 4 (push_bit 4 (a AND 3) OR drop_bit 4 b) = (a::byte)"
  unfolding mask3 by (rule byte_eqI) (simp add: bit_simps, simp add: eval_nat_numeral)

lemma octet1: "push_bit 4 ((push_bit 4 (a AND 3) OR drop_bit 4 b) AND 15) OR drop_bit 2 (push_bit 2 (b AND 15) OR drop_bit 6 c) = (b::byte)"
  unfolding mask3 mask15 by (rule byte_eqI) (simp add: bit_simps)

lemma octet2: "push_bit 6 ((push_bit 2 (b AND 15) OR drop_bit 6 c) AND 3) OR (c AND 63) = (c::byte)"
  unfolding mask3 mask15 mask63 by (rule byte_eqI) (simp add: bit_simps)

lemma table_length: "length table_b2a_base64 = 64"
  by (simp add: table_b2a_base64_def)

lemma table_distinct: "distinct table_b2a_base64"
  by (simp add: table_b2a_base64_def)

lemma table_no_pad: "BASE64_PAD \<notin> set table_b2a_base64"
  by (simp add: table_b2a_base64_def BASE64_PAD_def)

lemma table_ascii: "list_all is_ascii table_b2a_base64"
  by (simp add: table_b2a_base64_def is_ascii_def)

lemma b2a_in_table: "unat v < 64 \<Longrightarrow> b2a v \<in> set table_b2a_base64"
  by (simp add: b2a_def table_length)

lemma b2a_not_pad: "unat v < 64 \<Longrightarrow> b2a v \<noteq> BASE64_PAD"
  using b2a_in_table table_no_pad by metis

lemma b2a_ascii: "unat v < 64 \<Longrightarrow> is_ascii (b2a v)"
  using b2a_in_table table_ascii by (metis list_all_iff)

lemma a2b_b2a: 
  assumes "unat v < 64"
  shows "table_a2b_base64 (b2a v) = Some v"
proof -
  have "map_of (zip table_b2a_base64 (map of_nat [0..<64])) (table_b2a_base64 ! unat v)
        = Some ((map of_nat [0..<64] :: byte list) ! unat v)"
    by (rule map_of_zip_nth) (simp_all add: table_length table_distinct assms)
  also have "(map of_nat [0..<64] :: byte list) ! unat v = v"
    using assms by simp
  finally show ?thesis by (simp add: table_a2b_base64_def b2a_def)
qed

lemma octet0_last: "push_bit 2 (drop_bit 2 a) OR drop_bit 4 (push_bit 4 (a AND 3)) = (a::byte)"
  unfolding mask3 by (rule byte_eqI) (simp add: bit_simps, simp add: eval_nat_numeral)

lemma octet1_last: "push_bit 4 ((push_bit 4 (a AND 3) OR drop_bit 4 b) AND 15) OR drop_bit 2 (push_bit 2 (b AND 15)) = (b::byte)"
  unfolding mask3 mask15 by (rule byte_eqI) (simp add: bit_simps)

lemma sextet1_last: "unat (push_bit 4 ((a::byte) AND 3)) < 64"
  unfolding mask3 by (rule sextet_less, rule byte_eqI) (simp add: bit_simps byte_high_bit)

lemma sextet2_last: "unat (push_bit 2 ((b::byte) AND 15)) < 64"
  unfolding mask15 by (rule sextet_less, rule byte_eqI) (simp add: bit_simps byte_high_bit)

text \<open>The decoder on the characters that the encoder emits.\<close>

lemma a2b_loop_data:
  assumes "unat v < 64"
  shows "a2b_loop quad_pos leftchar pads bin_data (b2a v # rest) =
     (if quad_pos = 0 then a2b_loop 1 v 0 bin_data rest
      else if quad_pos = 1 then
        a2b_loop 2 (v AND 15) 0 (bin_data @ [push_bit 2 leftchar OR drop_bit 4 v]) rest
      else if quad_pos = 2 then
        a2b_loop 3 (v AND 3) 0 (bin_data @ [push_bit 4 leftchar OR drop_bit 2 v]) rest
      else
        a2b_loop 0 0 0 (bin_data @ [push_bit 6 leftchar OR v]) rest)"
  using assms by (simp add: b2a_not_pad a2b_b2a)

lemma a2b_loop_three:
  assumes "unat e0 < 64" "unat e1 < 64" "unat e2 < 64"
  shows "a2b_loop 0 leftchar pads bin_data (b2a e0 # b2a e1 # b2a e2 # rest) =
     a2b_loop 3 (e2 AND 3) 0
       (bin_data @ [push_bit 2 e0 OR drop_bit 4 e1, push_bit 4 (e1 AND 15) OR drop_bit 2 e2]) rest"
  using assms by (simp add: a2b_loop_data del: a2b_loop.simps)

lemma a2b_loop_two:
  assumes "unat e0 < 64" "unat e1 < 64"
  shows "a2b_loop 0 leftchar pads bin_data (b2a e0 # b2a e1 # rest) =
     a2b_loop 2 (e1 AND 15) 0 (bin_data @ [push_bit 2 e0 OR drop_bit 4 e1]) rest"
  using assms by (simp add: a2b_loop_data del: a2b_loop.simps)

lemma a2b_loop_four:
  assumes "unat e0 < 64" "unat e1 < 64" "unat e2 < 64" "unat e3 < 64"
  shows "a2b_loop 0 leftchar pads bin_data (b2a e0 # b2a e1 # b2a e2 # b2a e3 # rest) =
     a2b_loop 0 0 0
       (bin_data @ [push_bit 2 e0 OR drop_bit 4 e1, push_bit 4 (e1 AND 15) OR drop_bit 2 e2,
                    push_bit 6 (e2 AND 3) OR e3]) rest"
  using assms by (simp add: a2b_loop_three a2b_loop_data del: a2b_loop.simps)

lemma a2b_loop_pad3:
  "a2b_loop 3 leftchar 0 bin_data (BASE64_PAD # rest) = Inr bin_data"
  by simp

lemma a2b_loop_pad2:
  "a2b_loop 2 leftchar 0 bin_data (BASE64_PAD # BASE64_PAD # rest) = Inr bin_data"
  by simp

lemma a2b_loop_encoded:
  "a2b_loop 0 leftchar pads bin_data (b2a_base64 s) = Inr (bin_data @ s)"
proof (induction s arbitrary: leftchar pads bin_data rule: b2a_base64.induct)
  case (1 a b c rest)
  have "a2b_loop 0 leftchar pads bin_data (b2a_base64 (a # b # c # rest)) =
        a2b_loop 0 0 0
          (bin_data @ [push_bit 2 (drop_bit 2 a) OR drop_bit 4 (push_bit 4 (a AND 3) OR drop_bit 4 b),
             push_bit 4 ((push_bit 4 (a AND 3) OR drop_bit 4 b) AND 15)
               OR drop_bit 2 (push_bit 2 (b AND 15) OR drop_bit 6 c),
             push_bit 6 ((push_bit 2 (b AND 15) OR drop_bit 6 c) AND 3) OR (c AND 63)])
          (b2a_base64 rest)"
    by (simp only: b2a_base64.simps append.simps a2b_loop_four sextet0 sextet1 sextet2 sextet3)
  also have "\<dots> = a2b_loop 0 0 0 (bin_data @ [a, b, c]) (b2a_base64 rest)"
    by (simp only: octet0 octet1 octet2)
  also have "\<dots> = Inr ((bin_data @ [a, b, c]) @ rest)"
    by (rule "1.IH")
  finally show ?case by simp
next
  case (2 a b)
  have "a2b_loop 0 leftchar pads bin_data (b2a_base64 [a, b]) =
        a2b_loop 3 (push_bit 2 (b AND 15) AND 3) 0
          (bin_data @ [push_bit 2 (drop_bit 2 a) OR drop_bit 4 (push_bit 4 (a AND 3) OR drop_bit 4 b),
             push_bit 4 ((push_bit 4 (a AND 3) OR drop_bit 4 b) AND 15)
               OR drop_bit 2 (push_bit 2 (b AND 15))])
          [BASE64_PAD]"
    by (simp only: b2a_base64.simps a2b_loop_three sextet0 sextet1 sextet2_last)
  also have "\<dots> = Inr (bin_data @ [a, b])"
    by (simp only: a2b_loop_pad3 octet0 octet1_last)
  finally show ?case .
next
  case (3 a)
  have "a2b_loop 0 leftchar pads bin_data (b2a_base64 [a]) =
        a2b_loop 2 (push_bit 4 (a AND 3) AND 15) 0
          (bin_data @ [push_bit 2 (drop_bit 2 a) OR drop_bit 4 (push_bit 4 (a AND 3))])
          [BASE64_PAD, BASE64_PAD]"
    by (simp only: b2a_base64.simps a2b_loop_two sextet0 sextet1_last)
  also have "\<dots> = Inr (bin_data @ [a])"
    by (simp only: a2b_loop_pad2 octet0_last)
  finally show ?case .
next
  case 4
  show ?case by simp
qed

lemma pad_ascii: "is_ascii BASE64_PAD"
  by (simp add: is_ascii_def BASE64_PAD_def)

lemma b2a_base64_ascii: "list_all is_ascii (b2a_base64 s)"
proof (induction s rule: b2a_base64.induct)
  case (1 a b c rest)
  then show ?case
    by (simp only: b2a_base64.simps append.simps list.pred_inject b2a_ascii
        sextet0 sextet1 sextet2 sextet3 simp_thms)
next
  case (2 a b)
  show ?case
    by (simp only: b2a_base64.simps list.pred_inject b2a_ascii pad_ascii
        sextet0 sextet1 sextet2_last simp_thms)
next
  case (3 a)
  show ?case
    by (simp only: b2a_base64.simps list.pred_inject b2a_ascii pad_ascii
        sextet0 sextet1_last simp_thms)
next
  case 4
  show ?case by simp
qed

text \<open>Decoding what \<^verbatim>\<open>b64encode\<close> returns gives the bytes back.\<close>

lemma b64decode_b64encode: "b64decode (JStr (b64encode s)) = Inr s"
  by (simp add: b64encode_def b2a_base64_ascii a2b_base64_def a2b_loop_encoded)

text \<open>Concrete runs of the codec, used on the sample requests below.\<close>

lemma decode_QUJD: "b64decode (JStr ''QUJD'') = Inr [65, 66, 67]"
  by code_simp

lemma encode_ABC: "b64encode [65, 66, 67] = ''QUJD''"
  by code_simp

lemma decode_empty: "b64decode (JStr []) = Inr []"
  by code_simp

lemma decode_A:
  "b64decode (JStr ''A'') =
     Inl (Binascii_Error ''Invalid base64-encoded string: number of data characters (1) cannot be 1 more than a multiple of 4'')"
  by code_simp

lemma decode_lenient: "b64decode (JStr ''QU JD!'') = Inr [65, 66, 67]"
  by code_simp

section \<open>Steps of the handler\<close>

lemma first_non_str_None_iff:
  "first_non_str kvs = None \<longleftrightarrow> list_all (\<lambda>kv. isinstance_str (snd kv)) kvs"
  by (induction kvs rule: first_non_str.induct) auto

lemma first_non_str_Some:
  "first_non_str kvs = Some key \<Longrightarrow> \<exists>val. (key, val) \<in> set kvs \<and> \<not> isinstance_str val"
  by (induction kvs rule: first_non_str.induct) (auto split: if_splits)

lemma first_non_str_exists:
  "(key, val) \<in> set kvs \<Longrightarrow> \<not> isinstance_str val \<Longrightarrow> \<exists>k. first_non_str kvs = Some k"
  by (induction kvs rule: first_non_str.induct) auto

lemma map_of_Some_key: "map_of kvs k = Some v \<Longrightarrow> k \<in> fst ` set kvs"
  by (metis map_of_eq_None_iff option.distinct(1))

lemma b64decode_non_str: "\<not> isinstance_str v \<Longrightarrow> \<exists>m. b64decode v = Inl (TypeError m)"
  by (cases v) simp_all

text \<open>The loop stops at the first entry whose value is not a str: all before it are strs.\<close>

lemma first_non_str_split:
  "first_non_str kvs = Some key \<Longrightarrow>
     \<exists>pre val post. kvs = pre @ (key, val) # post
       \<and> list_all (\<lambda>kv. isinstance_str (snd kv)) pre \<and> \<not> isinstance_str val"
proof (induction kvs rule: first_non_str.induct)
  case 1
  then show ?case by simp
next
  case (2 k v rest)
  show ?case
  proof (cases "isinstance_str v")
    case False
    with "2.prems" have "key = k" by simp
    with False have "(k, v) # rest = [] @ (key, v) # rest
        \<and> list_all (\<lambda>kv. isinstance_str (snd kv)) [] \<and> \<not> isinstance_str v"
      by simp
    then show ?thesis by blast
  next
    case True
    with "2.prems" have "first_non_str rest = Some key" by simp
    with "2.IH" True obtain pre val post where
      "rest = pre @ (key, val) # post" "list_all (\<lambda>kv. isinstance_str (snd kv)) pre"
      "\<not> isinstance_str val"
      by auto
    with True have "(k, v) # rest = ((k, v) # pre) @ (key, val) # post
        \<and> list_all (\<lambda>kv. isinstance_str (snd kv)) ((k, v) # pre) \<and> \<not> isinstance_str val"
      by simp
    then show ?thesis by blast
  qed
qed

lemma call_merge_plain:
  "''self'' \<notin> fst ` set d \<Longrightarrow> call_merge lib document d = merge lib document d"
  by (simp add: call_merge_def)

text \<open>A mapping body with both keys passes the first test and is read by its keys.\<close>

lemma try_block_mapping:
  assumes "map_of kvs ''template'' = Some template_base64"
    and "map_of kvs ''data'' = Some data"
  shows "try_block lib (Inr (JObj kvs)) =
     (if \<not> isinstance_dict data then (Inr data_not_object, [])
      else
       (case first_non_str (items data) of
          Some key \<Rightarrow> (Inr (value_not_string key), [])
        | None \<Rightarrow>
           (case b64decode template_base64 of
              Inl e \<Rightarrow> (Inr invalid_base64, [])
            | Inr template_bytes \<Rightarrow> merge_document lib template_bytes (items data))))"
proof -
  have "kvs \<noteq> []" using assms(1) by auto
  moreover have "''template'' \<in> fst ` set kvs" "''data'' \<in> fst ` set kvs"
    using assms by (auto dest: map_of_Some_key)
  ultimately show ?thesis
    using assms by (simp add: try_block_def)
qed

lemma try_block_missing:
  assumes "map_of kvs ''template'' = None \<or> map_of kvs ''data'' = None"
  shows "try_block lib (Inr (JObj kvs)) = (Inr missing_parameters, [])"
  using assms by (auto simp add: try_block_def map_of_eq_None_iff)

text \<open>The work on the template either raises or makes its four calls in order.\<close>

lemma merge_document_cases:
  "(\<exists>e cs. merge_document lib bs d = (Inl e, cs)) \<or>
   (\<exists>document fs merged out. MailMerge lib bs = Inr document
      \<and> get_merge_fields lib document = Inr fs
      \<and> call_merge lib document d = Inr merged \<and> write_buffer lib merged = Inr out
      \<and> merge_document lib bs d =
          (Inr (success_body (b64encode out) fs, 200),
           [Call_MailMerge bs, Call_get_merge_fields, Call_merge d, Call_write]))"
  by (auto simp add: merge_document_def split: sum.splits)

text \<open>Only the last return of the \<^verbatim>\<open>try\<close> block has status 200.\<close>

lemma try_block_success:
  assumes "try_block lib get_json = (Inr r, calls)" and "status r = 200"
  shows "\<exists>request_data template_base64 data template_bytes document fs merged out.
     get_json = Inr request_data
     \<and> py_getitem request_data ''template'' = Inr template_base64
     \<and> py_getitem request_data ''data'' = Inr data
     \<and> b64decode template_base64 = Inr template_bytes
     \<and> MailMerge lib template_bytes = Inr document
     \<and> get_merge_fields lib document = Inr fs
     \<and> ''self'' \<notin> fst ` set (items data)
     \<and> merge lib document (items data) = Inr merged
     \<and> write_buffer lib merged = Inr out
     \<and> r = (success_body (b64encode out) fs, 200)
     \<and> calls = [Call_MailMerge template_bytes, Call_get_merge_fields,
                 Call_merge (items data), Call_write]"
  using assms
  by (auto simp add: try_block_def merge_document_def call_merge_def status_def
      missing_parameters_def data_not_object_def value_not_string_def invalid_base64_def
      split: sum.splits if_splits option.splits)

lemma document_merge_success:
  assumes "document_merge lib get_json = (r, calls)" and "status r = 200"
  shows "try_block lib get_json = (Inr r, calls)"
  using assms
  by (auto simp add: document_merge_def status_def split: prod.splits sum.splits)

text \<open>The sample library on the sample requests.\<close>

lemma run_sample_request:
  "document_merge sample_lib
     (Inr (JObj [(''template'', JStr ''QUJD''), (''data'', JObj [(''client_name'', JStr ''Acme'')])])) =
   ((success_body ''QUJD'' [''client_name'', ''date''], 200),
    [Call_MailMerge [65, 66, 67], Call_get_merge_fields,
     Call_merge [(''client_name'', JStr ''Acme'')], Call_write])"
  by (simp add: document_merge_def try_block_def merge_document_def call_merge_def
      sample_lib_def decode_QUJD encode_ABC del: b64decode.simps)

lemma run_empty_template:
  "document_merge sample_lib (Inr (JObj [(''template'', JStr []), (''data'', JObj [])])) =
   ((error_body ''File is not a zip file'', 500), [Call_MailMerge []])"
  by (simp add: document_merge_def try_block_def merge_document_def sample_lib_def decode_empty
      del: b64decode.simps)

section \<open>Properties of the handler\<close>

text \<open>An exception of \<^verbatim>\<open>request.get_json()\<close> reaches the outer \<^verbatim>\<open>except\<close>.\<close>

lemma raised_in_get_json_500:
  "document_merge lib (Inl e) = ((error_body (str_exn e), 500), [])"
  by (simp add: document_merge_def try_block_def)

text \<open>
  C8. When the request has no JSON content type (a missing or another one), or when its
  body is a text on which \<^verbatim>\<open>json.loads\<close> raises, \<^verbatim>\<open>request.get_json()\<close> raises
  inside the \<^verbatim>\<open>try\<close>; the outer \<^verbatim>\<open>except Exception\<close> catches it and the response
  is 500 with \<^verbatim>\<open>success: false\<close> and the text of the exception, not a 400 of the
  validation, and the library is not called.
\<close>

theorem unparseable_request_500:
  assumes "\<not> is_json req \<or> (\<exists>e. loads (get_data req) = Inl e)"
  shows "\<exists>e. request_get_json loads req = Inl e
     \<and> document_merge lib (request_get_json loads req) =
         ((JObj [(''success'', JBool False), (''error'', JStr (str_exn e))], 500), [])"
proof -
  have "\<exists>e. request_get_json loads req = Inl e"
    using assms by (auto simp add: request_get_json_def)
  then obtain e where "request_get_json loads req = Inl e" ..
  then show ?thesis
    by (simp add: raised_in_get_json_500 error_body_def)
qed

theorem unparseable_request_500_witness:
  "(\<exists>e. request_get_json sample_loads \<lparr>mimetype = ''text/plain'', get_data = ''{}''\<rparr> = Inl e
      \<and> document_merge sample_lib
          (request_get_json sample_loads \<lparr>mimetype = ''text/plain'', get_data = ''{}''\<rparr>) =
          ((JObj [(''success'', JBool False), (''error'', JStr (str_exn e))], 500), []))
   \<and> (\<exists>e. request_get_json sample_loads \<lparr>mimetype = ''application/json'', get_data = ''{''\<rparr> = Inl e
      \<and> document_merge sample_lib
          (request_get_json sample_loads \<lparr>mimetype = ''application/json'', get_data = ''{''\<rparr>) =
          ((JObj [(''success'', JBool False), (''error'', JStr (str_exn e))], 500), []))"
proof (intro conjI)
  have "\<not> is_json \<lparr>mimetype = ''text/plain'', get_data = ''{}''\<rparr>"
    by (simp add: is_json_def)
  then have "\<not> is_json \<lparr>mimetype = ''text/plain'', get_data = ''{}''\<rparr>
      \<or> (\<exists>e. sample_loads (get_data \<lparr>mimetype = ''text/plain'', get_data = ''{}''\<rparr>) = Inl e)"
    by (rule disjI1)
  then show "\<exists>e. request_get_json sample_loads \<lparr>mimetype = ''text/plain'', get_data = ''{}''\<rparr> = Inl e
      \<and> document_merge sample_lib
          (request_get_json sample_loads \<lparr>mimetype = ''text/plain'', get_data = ''{}''\<rparr>) =
          ((JObj [(''success'', JBool False), (''error'', JStr (str_exn e))], 500), [])"
    by (rule unparseable_request_500)
next
  have "\<exists>e. sample_loads (get_data \<lparr>mimetype = ''application/json'', get_data = ''{''\<rparr>) = Inl e"
    by (simp add: sample_loads_def)
  then have "\<not> is_json \<lparr>mimetype = ''application/json'', get_data = ''{''\<rparr>
      \<or> (\<exists>e. sample_loads (get_data \<lparr>mimetype = ''application/json'', get_data = ''{''\<rparr>) = Inl e)"
    by (rule disjI2)
  then show "\<exists>e. request_get_json sample_loads \<lparr>mimetype = ''application/json'', get_data = ''{''\<rparr> = Inl e
      \<and> document_merge sample_lib
          (request_get_json sample_loads \<lparr>mimetype = ''application/json'', get_data = ''{''\<rparr>) =
          ((JObj [(''success'', JBool False), (''error'', JStr (str_exn e))], 500), [])"
    by (rule unparseable_request_500)
qed

text \<open>
  C1. In every response of status 200 the \<^verbatim>\<open>fields\<close> list holds the names that the
  library enumerates from the decoded template, \<open>listed_fields\<close>, which does not depend
  on \<^verbatim>\<open>data\<close>; the call that lists them comes before the call of \<^verbatim>\<open>merge\<close>, on the
  document as \<open>MailMerge\<close> opened it.
\<close>

theorem fields_listed_before_merge:
  assumes "document_merge lib get_json = (r, calls)" and "status r = 200"
  shows "\<exists>request_data template_base64 fs bs d.
     get_json = Inr request_data
     \<and> py_getitem request_data ''template'' = Inr template_base64
     \<and> listed_fields lib template_base64 = Some fs
     \<and> field ''fields'' r = Some (JArr (map JStr fs))
     \<and> calls = [Call_MailMerge bs, Call_get_merge_fields, Call_merge d, Call_write]"
proof -
  have "try_block lib get_json = (Inr r, calls)"
    using assms by (rule document_merge_success)
  from try_block_success [OF this assms(2)]
  obtain request_data template_base64 data template_bytes document fs out where
    "get_json = Inr request_data"
    "py_getitem request_data ''template'' = Inr template_base64"
    "b64decode template_base64 = Inr template_bytes"
    "MailMerge lib template_bytes = Inr document"
    "get_merge_fields lib document = Inr fs"
    "r = (success_body (b64encode out) fs, 200)"
    "calls = [Call_MailMerge template_bytes, Call_get_merge_fields,
              Call_merge (items data), Call_write]"
    by blast
  then show ?thesis
    by (simp add: listed_fields_def field_def success_body_def)
qed

theorem fields_listed_before_merge_witness:
  "status (fst (document_merge sample_lib
     (Inr (JObj [(''template'', JStr ''QUJD''),
                 (''data'', JObj [(''client_name'', JStr ''Acme'')])])))) = 200
   \<and> (\<exists>fs. listed_fields sample_lib (JStr ''QUJD'') = Some fs
        \<and> field ''fields'' (fst (document_merge sample_lib
             (Inr (JObj [(''template'', JStr ''QUJD''),
                         (''data'', JObj [(''client_name'', JStr ''Acme'')])]))))
           = Some (JArr (map JStr fs)))"
proof -
  let ?run = "document_merge sample_lib
     (Inr (JObj [(''template'', JStr ''QUJD''),
                 (''data'', JObj [(''client_name'', JStr ''Acme'')])]))"
  have run: "?run = (fst ?run, snd ?run)" by simp
  have ok: "status (fst ?run) = 200"
    by (simp add: run_sample_request status_def)
  from fields_listed_before_merge [OF run ok]
  obtain request_data template_base64 fs where
    "Inr (JObj [(''template'', JStr ''QUJD''),
                (''data'', JObj [(''client_name'', JStr ''Acme'')])]) =
       (Inr request_data :: exn + json)"
    "py_getitem request_data ''template'' = Inr template_base64"
    "listed_fields sample_lib template_base64 = Some fs"
    "field ''fields'' (fst ?run) = Some (JArr (map JStr fs))"
    by blast
  moreover from this have "template_base64 = JStr ''QUJD''" by auto
  ultimately show ?thesis using ok by blast
qed

text \<open>
  C2 as stated fails: a request can be valid (a decodable template, only string values)
  and the library still refuse the decoded bytes. Here the template is the empty string,
  which decodes to no bytes, and the library raises as a zip reader does; the response is
  500 with \<^verbatim>\<open>success: false\<close>.
\<close>

theorem valid_request_merge_failure:
  "b64decode (JStr []) = Inr []
   \<and> first_non_str [] = None
   \<and> document_merge sample_lib (Inr (JObj [(''template'', JStr []), (''data'', JObj [])])) =
       ((JObj [(''success'', JBool False), (''error'', JStr ''File is not a zip file'')], 500),
        [Call_MailMerge []])"
  using run_empty_template by (simp add: decode_empty error_body_def del: b64decode.simps)

text \<open>
  C2, amended. For a valid request (the body a mapping, \<^verbatim>\<open>template\<close> a decodable base64
  string, \<^verbatim>\<open>data\<close> a mapping of string values) whose \<^verbatim>\<open>data\<close> has no key
  \<^verbatim>\<open>self\<close>, and on which the library opens the template, lists the fields, merges and
  writes at least one byte, the response is 200 with \<^verbatim>\<open>success: true\<close>, and
  \<^verbatim>\<open>document\<close> decodes from base64 to a non-empty payload, the bytes written.
\<close>

theorem valid_request_success:
  assumes "map_of kvs ''template'' = Some (JStr t)"
    and "b64decode (JStr t) = Inr template_bytes"
    and "map_of kvs ''data'' = Some (JObj d)"
    and "list_all (\<lambda>kv. isinstance_str (snd kv)) d"
    and "''self'' \<notin> fst ` set d"
    and "MailMerge lib template_bytes = Inr document"
    and "get_merge_fields lib document = Inr fs"
    and "merge lib document d = Inr merged"
    and "write_buffer lib merged = Inr out"
    and "out \<noteq> []"
  shows "\<exists>doc payload. fst (document_merge lib (Inr (JObj kvs))) =
           (JObj [(''success'', JBool True), (''document'', JStr doc),
                  (''fields'', JArr (map JStr fs))], 200)
         \<and> b64decode (JStr doc) = Inr payload \<and> payload \<noteq> [] \<and> payload = out"
proof -
  have "first_non_str d = None"
    using assms(4) by (simp add: first_non_str_None_iff)
  then have "try_block lib (Inr (JObj kvs)) = merge_document lib template_bytes d"
    using assms(1-3) by (simp add: try_block_mapping del: b64decode.simps)
  moreover have "call_merge lib document d = Inr merged"
    using assms(5,8) by (simp add: call_merge_plain)
  ultimately have "fst (document_merge lib (Inr (JObj kvs))) =
      (success_body (b64encode out) fs, 200)"
    using assms(6,7,9) by (simp add: document_merge_def merge_document_def)
  then show ?thesis
    using b64decode_b64encode [of out] assms(10)
    by (simp add: success_body_def del: b64decode.simps)
qed

theorem valid_request_success_witness:
  "\<exists>doc payload. fst (document_merge sample_lib
       (Inr (JObj [(''template'', JStr ''QUJD''),
                   (''data'', JObj [(''client_name'', JStr ''Acme'')])]))) =
       (JObj [(''success'', JBool True), (''document'', JStr doc),
              (''fields'', JArr (map JStr [''client_name'', ''date'']))], 200)
     \<and> b64decode (JStr doc) = Inr payload \<and> payload \<noteq> [] \<and> payload = [65, 66, 67]"
proof (rule valid_request_success)
  show "map_of [(''template'', JStr ''QUJD''), (''data'', JObj [(''client_name'', JStr ''Acme'')])]
          ''template'' = Some (JStr ''QUJD'')"
    by simp
  show "b64decode (JStr ''QUJD'') = Inr [65, 66, 67]"
    by (rule decode_QUJD)
  show "map_of [(''template'', JStr ''QUJD''), (''data'', JObj [(''client_name'', JStr ''Acme'')])]
          ''data'' = Some (JObj [(''client_name'', JStr ''Acme'')])"
    by simp
  show "list_all (\<lambda>kv. isinstance_str (snd kv)) [(''client_name'', JStr ''Acme'')]"
    by simp
  show "''self'' \<notin> fst ` set [(''client_name'', JStr ''Acme'')]"
    by simp
  show "MailMerge sample_lib [65, 66, 67] = Inr [65, 66, 67]"
    by (simp add: sample_lib_def)
  show "get_merge_fields sample_lib [65, 66, 67] = Inr [''client_name'', ''date'']"
    by (simp add: sample_lib_def)
  show "merge sample_lib [65, 66, 67] [(''client_name'', JStr ''Acme'')] = Inr [65, 66, 67]"
    by (simp add: sample_lib_def)
  show "write_buffer sample_lib [65, 66, 67] = Inr [65, 66, 67]"
    by (simp add: sample_lib_def)
  show "[65, 66, 67] \<noteq> ([] :: byte list)"
    by simp
qed

text \<open>
  With a key \<^verbatim>\<open>self\<close> in \<^verbatim>\<open>data\<close> the call of line 87 raises before the library
  merges, whatever the template: the response is 500.
\<close>

lemma self_key_500:
  "document_merge sample_lib
     (Inr (JObj [(''template'', JStr ''QUJD''), (''data'', JObj [(''self'', JStr ''x'')])])) =
   ((JObj [(''success'', JBool False),
           (''error'', JStr (''MailMerge.merge() got multiple values for argument ''
                             @ [CHR 0x27] @ ''self'' @ [CHR 0x27]))], 500),
    [Call_MailMerge [65, 66, 67], Call_get_merge_fields, Call_merge [(''self'', JStr ''x'')]])"
  by (simp add: document_merge_def try_block_def merge_document_def call_merge_def
      sample_lib_def error_body_def decode_QUJD del: b64decode.simps)

text \<open>
  C3. The claim asks for a 400 whenever the parsed body lacks \<^verbatim>\<open>template\<close> or
  \<^verbatim>\<open>data\<close>. The handler tests \<^verbatim>\<open>'template' not in request_data\<close> without testing that
  the body is a mapping: on the body \<^verbatim>\<open>5\<close> the test raises \<^verbatim>\<open>TypeError\<close>, which the
  outer \<^verbatim>\<open>except\<close> turns into a 500.
\<close>

theorem truthy_number_body_500:
  "document_merge lib (Inr (JInt 5)) =
     ((JObj [(''success'', JBool False),
             (''error'', JStr (''argument of type '' @ [CHR 0x27] @ ''int'' @ [CHR 0x27]
                               @ '' is not iterable''))], 500), [])"
  by (simp add: document_merge_def try_block_def error_body_def)

text \<open>
  On a body that is a mapping the validation does what C3 says: a missing key, a
  \<^verbatim>\<open>data\<close> that is no mapping, or a value of \<^verbatim>\<open>data\<close> that is no string gives a 400
  with a message, and the library is not called.
\<close>

lemma mapping_body_rejected:
  assumes "map_of kvs ''template'' = None \<or> map_of kvs ''data'' = None
     \<or> (\<exists>data. map_of kvs ''data'' = Some data
           \<and> (\<not> isinstance_dict data \<or> first_non_str (items data) \<noteq> None))"
  shows "\<exists>msg. document_merge lib (Inr (JObj kvs)) = ((error_body msg, 400), [])"
proof (cases "map_of kvs ''template'' = None \<or> map_of kvs ''data'' = None")
  case True
  then show ?thesis
    by (auto simp add: document_merge_def try_block_missing missing_parameters_def)
next
  case False
  then obtain t data where kv: "map_of kvs ''template'' = Some t" "map_of kvs ''data'' = Some data"
    by auto
  with assms have "\<not> isinstance_dict data \<or> first_non_str (items data) \<noteq> None"
    by auto
  then show ?thesis
    using kv
    by (auto simp add: document_merge_def try_block_mapping data_not_object_def
        value_not_string_def simp del: b64decode.simps)
qed

text \<open>
  C4 as stated fails: when the body has no \<^verbatim>\<open>template\<close>, the first test answers before
  the values of \<^verbatim>\<open>data\<close> are looked at, and its message does not name the key.
\<close>

theorem offending_key_not_named:
  "document_merge sample_lib (Inr (JObj [(''data'', JObj [(''amount'', JInt 42)])])) =
     ((JObj [(''success'', JBool False),
             (''error'', JStr ''Missing required parameters: template and data'')], 400), [])
   \<and> \<not> sublist ''amount'' ''Missing required parameters: template and data''"
proof
  show "document_merge sample_lib (Inr (JObj [(''data'', JObj [(''amount'', JInt 42)])])) =
     ((JObj [(''success'', JBool False),
             (''error'', JStr ''Missing required parameters: template and data'')], 400), [])"
    by (simp add: document_merge_def try_block_def missing_parameters_def error_body_def)
  show "\<not> sublist ''amount'' ''Missing required parameters: template and data''"
    by code_simp
qed

text \<open>
  C4, amended. For a body that is a mapping with the key \<^verbatim>\<open>template\<close> and a mapping
  \<^verbatim>\<open>data\<close> in which some value is not a string, the response is 400 with
  \<^verbatim>\<open>success: false\<close>, the message names the first key of \<^verbatim>\<open>data\<close> whose value is not
  a string (every entry before it has a string value), and the library is not called.
\<close>

theorem non_string_value_names_key:
  assumes "map_of kvs ''template'' = Some t"
    and "map_of kvs ''data'' = Some (JObj d)"
    and "(k, v) \<in> set d" and "\<not> isinstance_str v"
  shows "\<exists>pre key val post. d = pre @ (key, val) # post
     \<and> list_all (\<lambda>kv. isinstance_str (snd kv)) pre \<and> \<not> isinstance_str val
     \<and> document_merge lib (Inr (JObj kvs)) =
         ((JObj [(''success'', JBool False),
                 (''error'', JStr (''Data value for key '' @ [CHR 0x27] @ key @ [CHR 0x27]
                                   @ '' must be a string''))], 400), [])"
proof -
  from first_non_str_exists [OF assms(3,4)] obtain key where key: "first_non_str d = Some key"
    by blast
  from first_non_str_split [OF this] obtain pre val post where
    "d = pre @ (key, val) # post" "list_all (\<lambda>kv. isinstance_str (snd kv)) pre"
    "\<not> isinstance_str val"
    by blast
  moreover have "document_merge lib (Inr (JObj kvs)) = (value_not_string key, [])"
    using assms(1,2) key
    by (simp add: document_merge_def try_block_mapping del: b64decode.simps)
  ultimately show ?thesis
    by (auto simp add: value_not_string_def error_body_def)
qed

theorem non_string_value_names_key_witness:
  "document_merge sample_lib
     (Inr (JObj [(''template'', JStr ''QUJD''),
                 (''data'', JObj [(''a'', JStr ''x''), (''b'', JInt 1), (''c'', JNull)])])) =
     ((JObj [(''success'', JBool False),
             (''error'', JStr (''Data value for key '' @ [CHR 0x27] @ ''b'' @ [CHR 0x27]
                               @ '' must be a string''))], 400), [])"
proof -
  let ?d = "[(''a'', JStr ''x''), (''b'', JInt 1), (''c'', JNull)]"
  let ?kvs = "[(''template'', JStr ''QUJD''), (''data'', JObj ?d)]"
  have "\<exists>pre key val post. ?d = pre @ (key, val) # post
     \<and> list_all (\<lambda>kv. isinstance_str (snd kv)) pre \<and> \<not> isinstance_str val
     \<and> document_merge sample_lib (Inr (JObj ?kvs)) =
         ((JObj [(''success'', JBool False),
                 (''error'', JStr (''Data value for key '' @ [CHR 0x27] @ key @ [CHR 0x27]
                                   @ '' must be a string''))], 400), [])"
  proof (rule non_string_value_names_key)
    show "map_of ?kvs ''template'' = Some (JStr ''QUJD'')" by simp
    show "map_of ?kvs ''data'' = Some (JObj ?d)" by simp
    show "(''c'', JNull) \<in> set ?d" by simp
    show "\<not> isinstance_str JNull" by simp
  qed
  then obtain pre key val post where
    split: "?d = pre @ (key, val) # post"
    and strs: "list_all (\<lambda>kv. isinstance_str (snd kv)) pre" and bad: "\<not> isinstance_str val"
    and run: "document_merge sample_lib (Inr (JObj ?kvs)) =
         ((JObj [(''success'', JBool False),
                 (''error'', JStr (''Data value for key '' @ [CHR 0x27] @ key @ [CHR 0x27]
                                   @ '' must be a string''))], 400), [])"
    by blast
  have "key = ''b''"
    using split strs bad by (auto simp add: Cons_eq_append_conv)
  with run show ?thesis by simp
qed

text \<open>
  C5 as stated fails: the validation of \<^verbatim>\<open>data\<close> comes before the decoding. With a
  template that does not decode and a value of \<^verbatim>\<open>data\<close> that is no string, the
  response is the 400 of the validation, with another message.
\<close>

theorem undecodable_template_other_message:
  "b64decode (JStr ''A'') =
     Inl (Binascii_Error ''Invalid base64-encoded string: number of data characters (1) cannot be 1 more than a multiple of 4'')
   \<and> document_merge sample_lib
        (Inr (JObj [(''template'', JStr ''A''), (''data'', JObj [(''amount'', JInt 42)])])) =
       ((JObj [(''success'', JBool False),
               (''error'', JStr (''Data value for key '' @ [CHR 0x27] @ ''amount'' @ [CHR 0x27]
                                 @ '' must be a string''))], 400), [])
   \<and> fst (document_merge sample_lib
        (Inr (JObj [(''template'', JStr ''A''), (''data'', JObj [(''amount'', JInt 42)])])))
       \<noteq> (JObj [(''success'', JBool False),
                  (''error'', JStr ''Invalid base64 encoded template'')], 400)"
  by (simp add: decode_A document_merge_def try_block_def value_not_string_def error_body_def
      del: b64decode.simps)

text \<open>
  C5, amended. For every request that passes the validation (the body a mapping with
  \<^verbatim>\<open>template\<close> and \<^verbatim>\<open>data\<close>, \<^verbatim>\<open>data\<close> a mapping of string values) and whose
  \<^verbatim>\<open>template\<close> fails base64 decoding, the response is 400 with the message
  \<^verbatim>\<open>Invalid base64 encoded template\<close>, and the library is not called.
\<close>

theorem decode_failure_400:
  assumes "map_of kvs ''template'' = Some t"
    and "map_of kvs ''data'' = Some (JObj d)"
    and "list_all (\<lambda>kv. isinstance_str (snd kv)) d"
    and "b64decode t = Inl e"
  shows "document_merge lib (Inr (JObj kvs)) =
     ((JObj [(''success'', JBool False),
             (''error'', JStr ''Invalid base64 encoded template'')], 400), [])"
proof -
  have "first_non_str d = None"
    using assms(3) by (simp add: first_non_str_None_iff)
  then have "try_block lib (Inr (JObj kvs)) = (Inr invalid_base64, [])"
    using assms(1,2,4) by (simp add: try_block_mapping del: b64decode.simps)
  then show ?thesis
    by (simp add: document_merge_def invalid_base64_def error_body_def)
qed

theorem decode_failure_400_witness:
  "document_merge sample_lib (Inr (JObj [(''template'', JStr ''A''), (''data'', JObj [])])) =
     ((JObj [(''success'', JBool False),
             (''error'', JStr ''Invalid base64 encoded template'')], 400), [])"
proof (rule decode_failure_400)
  show "map_of [(''template'', JStr ''A''), (''data'', JObj [])] ''template'' = Some (JStr ''A'')"
    by simp
  show "map_of [(''template'', JStr ''A''), (''data'', JObj [])] ''data'' = Some (JObj [])"
    by simp
  show "list_all (\<lambda>kv. isinstance_str (snd kv)) []"
    by simp
  show "b64decode (JStr ''A'') =
     Inl (Binascii_Error ''Invalid base64-encoded string: number of data characters (1) cannot be 1 more than a multiple of 4'')"
    by (rule decode_A)
qed

text \<open>
  C6. For a request that passes the validation and the decoding, an exception of the
  library (while it opens the template, lists the fields, merges or writes) is caught: the
  response is 500 with \<^verbatim>\<open>success: false\<close> and the text of the exception. The handler
  is a total function to responses, so nothing is propagated.
\<close>

theorem library_exception_500:
  assumes "map_of kvs ''template'' = Some t"
    and "map_of kvs ''data'' = Some (JObj d)"
    and "list_all (\<lambda>kv. isinstance_str (snd kv)) d"
    and "b64decode t = Inr template_bytes"
    and "MailMerge lib template_bytes = Inl e
       \<or> (\<exists>document. MailMerge lib template_bytes = Inr document
            \<and> (get_merge_fields lib document = Inl e
               \<or> (\<exists>fs. get_merge_fields lib document = Inr fs
                    \<and> (call_merge lib document d = Inl e
                       \<or> (\<exists>merged. call_merge lib document d = Inr merged
                            \<and> write_buffer lib merged = Inl e)))))"
  shows "fst (document_merge lib (Inr (JObj kvs))) =
     (JObj [(''success'', JBool False), (''error'', JStr (str_exn e))], 500)"
proof -
  have "first_non_str d = None"
    using assms(3) by (simp add: first_non_str_None_iff)
  then have "try_block lib (Inr (JObj kvs)) = merge_document lib template_bytes d"
    using assms(1,2,4) by (simp add: try_block_mapping del: b64decode.simps)
  moreover have "\<exists>calls. merge_document lib template_bytes d = (Inl e, calls)"
    using assms(5) by (auto simp add: merge_document_def)
  ultimately show ?thesis
    by (auto simp add: document_merge_def error_body_def)
qed

theorem library_exception_500_witness:
  "fst (document_merge sample_lib (Inr (JObj [(''template'', JStr []), (''data'', JObj [])]))) =
     (JObj [(''success'', JBool False), (''error'', JStr ''File is not a zip file'')], 500)"
proof -
  have "fst (document_merge sample_lib (Inr (JObj [(''template'', JStr []), (''data'', JObj [])]))) =
     (JObj [(''success'', JBool False),
            (''error'', JStr (str_exn (Raised ''File is not a zip file'')))], 500)"
  proof (rule library_exception_500)
    show "map_of [(''template'', JStr []), (''data'', JObj [])] ''template'' = Some (JStr [])"
      by simp
    show "map_of [(''template'', JStr []), (''data'', JObj [])] ''data'' = Some (JObj [])"
      by simp
    show "list_all (\<lambda>kv. isinstance_str (snd kv)) []"
      by simp
    show "b64decode (JStr []) = Inr []"
      by (rule decode_empty)
    show "MailMerge sample_lib [] = Inl (Raised ''File is not a zip file'')
       \<or> (\<exists>document. MailMerge sample_lib [] = Inr document
            \<and> (get_merge_fields sample_lib document = Inl (Raised ''File is not a zip file'')
               \<or> (\<exists>fs. get_merge_fields sample_lib document = Inr fs
                    \<and> (call_merge sample_lib document [] = Inl (Raised ''File is not a zip file'')
                       \<or> (\<exists>merged. call_merge sample_lib document [] = Inr merged
                            \<and> write_buffer sample_lib merged
                                = Inl (Raised ''File is not a zip file''))))))"
      by (simp add: sample_lib_def)
  qed
  then show ?thesis by simp
qed

text \<open>
  C7. In every response of status 200, \<^verbatim>\<open>document\<close> is a string that base64 decoding
  accepts, and encoding the decoded bytes again gives the same string.
\<close>

theorem document_round_trip:
  assumes "document_merge lib get_json = (r, calls)" and "status r = 200"
  shows "\<exists>document bs. field ''document'' r = Some (JStr document)
     \<and> b64decode (JStr document) = Inr bs \<and> b64encode bs = document"
proof -
  have "try_block lib get_json = (Inr r, calls)"
    using assms by (rule document_merge_success)
  from try_block_success [OF this assms(2)]
  obtain fs out where "r = (success_body (b64encode out) fs, 200)"
    by blast
  then have "field ''document'' r = Some (JStr (b64encode out))"
    by (simp add: field_def success_body_def)
  moreover have "b64decode (JStr (b64encode out)) = Inr out"
    by (rule b64decode_b64encode)
  ultimately show ?thesis by blast
qed

theorem document_round_trip_witness:
  "status (fst (document_merge sample_lib
     (Inr (JObj [(''template'', JStr ''QUJD''),
                 (''data'', JObj [(''client_name'', JStr ''Acme'')])])))) = 200
   \<and> (\<exists>bs. b64decode (JStr ''QUJD'') = Inr bs \<and> b64encode bs = ''QUJD'')"
proof -
  let ?run = "document_merge sample_lib
     (Inr (JObj [(''template'', JStr ''QUJD''),
                 (''data'', JObj [(''client_name'', JStr ''Acme'')])]))"
  have run: "?run = (fst ?run, snd ?run)" by simp
  have ok: "status (fst ?run) = 200"
    by (simp add: run_sample_request status_def)
  have doc: "field ''document'' (fst ?run) = Some (JStr ''QUJD'')"
    by (simp add: run_sample_request field_def success_body_def)
  from document_round_trip [OF run ok]
  obtain document bs where "field ''document'' (fst ?run) = Some (JStr document)"
    "b64decode (JStr document) = Inr bs" "b64encode bs = document"
    by blast
  with doc have "b64decode (JStr ''QUJD'') = Inr bs \<and> b64encode bs = ''QUJD''"
    by simp
  with ok show ?thesis by blast
qed

text \<open>
  C9. The type of \<^verbatim>\<open>template\<close> is not checked by the validation: when the body is
  a mapping whose \<^verbatim>\<open>template\<close> is not a string and whose \<^verbatim>\<open>data\<close> is a mapping of
  string values, \<^verbatim>\<open>b64decode\<close> raises \<^verbatim>\<open>TypeError\<close>, the inner \<^verbatim>\<open>except\<close> catches
  it, and the response is the 400 with \<^verbatim>\<open>Invalid base64 encoded template\<close>.
\<close>

theorem non_string_template_400:
  assumes "map_of kvs ''template'' = Some t" and "\<not> isinstance_str t"
    and "map_of kvs ''data'' = Some (JObj d)"
    and "list_all (\<lambda>kv. isinstance_str (snd kv)) d"
  shows "(\<exists>m. b64decode t = Inl (TypeError m))
     \<and> document_merge lib (Inr (JObj kvs)) =
         ((JObj [(''success'', JBool False),
                 (''error'', JStr ''Invalid base64 encoded template'')], 400), [])"
proof -
  from b64decode_non_str [OF assms(2)] obtain m where m: "b64decode t = Inl (TypeError m)"
    by blast
  have "first_non_str d = None"
    using assms(4) by (simp add: first_non_str_None_iff)
  then have "try_block lib (Inr (JObj kvs)) = (Inr invalid_base64, [])"
    using assms(1,3) m by (simp add: try_block_mapping del: b64decode.simps)
  then show ?thesis
    using m by (simp add: document_merge_def invalid_base64_def error_body_def
        del: b64decode.simps)
qed

theorem non_string_template_400_witness:
  "(\<exists>m. b64decode (JInt 5) = Inl (TypeError m))
   \<and> document_merge sample_lib
       (Inr (JObj [(''template'', JInt 5), (''data'', JObj [(''date'', JStr ''2024-12-18'')])])) =
       ((JObj [(''success'', JBool False),
               (''error'', JStr ''Invalid base64 encoded template'')], 400), [])"
proof (rule non_string_template_400)
  show "map_of [(''template'', JInt 5), (''data'', JObj [(''date'', JStr ''2024-12-18'')])]
          ''template'' = Some (JInt 5)"
    by simp
  show "\<not> isinstance_str (JInt 5)"
    by simp
  show "map_of [(''template'', JInt 5), (''data'', JObj [(''date'', JStr ''2024-12-18'')])]
          ''data'' = Some (JObj [(''date'', JStr ''2024-12-18'')])"
    by simp
  show "list_all (\<lambda>kv. isinstance_str (snd kv)) [(''date'', JStr ''2024-12-18'')]"
    by simp
qed

text \<open>
  C10. Decoding is lenient: the template \<^verbatim>\<open>QU JD!\<close> holds a space and an exclamation
  mark, which are not in the base64 alphabet; the decoder skips them and returns the three
  bytes of \<^verbatim>\<open>QUJD\<close>. With any library the handler goes on to the merge and its
  response is not the 400 of an invalid template; with the sample library it is a 200.
\<close>

theorem lenient_decoding_accepted:
  "table_a2b_base64 CHR '' '' = None
   \<and> table_a2b_base64 CHR ''!'' = None
   \<and> b64decode (JStr ''QU JD!'') = Inr [65, 66, 67]
   \<and> status (fst (document_merge lib
        (Inr (JObj [(''template'', JStr ''QU JD!''), (''data'', JObj [])])))) \<noteq> 400
   \<and> fst (document_merge sample_lib
        (Inr (JObj [(''template'', JStr ''QU JD!''), (''data'', JObj [])]))) =
       (JObj [(''success'', JBool True), (''document'', JStr ''QUJD''),
              (''fields'', JArr [JStr ''client_name'', JStr ''date''])], 200)"
proof (intro conjI)
  show "table_a2b_base64 CHR '' '' = None"
    by code_simp
  show "table_a2b_base64 CHR ''!'' = None"
    by code_simp
  show "b64decode (JStr ''QU JD!'') = Inr [65, 66, 67]"
    by (rule decode_lenient)
  have step: "try_block lib' (Inr (JObj [(''template'', JStr ''QU JD!''), (''data'', JObj [])])) =
      merge_document lib' [65, 66, 67] []" for lib' :: "'b mailmerge"
    by (simp add: try_block_def decode_lenient del: b64decode.simps)
  show "status (fst (document_merge lib
        (Inr (JObj [(''template'', JStr ''QU JD!''), (''data'', JObj [])])))) \<noteq> 400"
    using merge_document_cases [of lib "[65, 66, 67]" "[]"]
    by (auto simp add: document_merge_def step status_def)
  show "fst (document_merge sample_lib
        (Inr (JObj [(''template'', JStr ''QU JD!''), (''data'', JObj [])]))) =
       (JObj [(''success'', JBool True), (''document'', JStr ''QUJD''),
              (''fields'', JArr [JStr ''client_name'', JStr ''date''])], 200)"
    by (simp add: document_merge_def step merge_document_def call_merge_def sample_lib_def
        success_body_def encode_ABC)
qed

end
